theory Spec2Isabelle
  imports Main "HOL-Library.Word"
begin

section \<open>Inspect RPC server: data\<close>

text \<open>
  The model follows \<^verbatim>\<open>inspect/rpc/rpc.go\<close>. Go's \<^verbatim>\<open>int\<close>, \<^verbatim>\<open>int64\<close> and
  \<^verbatim>\<open>time.Duration\<close> (an \<^verbatim>\<open>int64\<close> count of nanoseconds) are 64-bit words:
  \<open>+\<close> wraps around and durations are compared as signed values (\<open>word_sle\<close>).
\<close>

type_synonym int64 = "64 word"
type_synonym Duration = "64 word"

definition Second :: Duration where
  "Second = 1000000000"

text \<open>
  Go errors. \<^verbatim>\<open>tmpubsub.ErrSubscriptionNotFound\<close> is the one error value the package
  compares against; every other error is told apart by its message. A method call on a
  nil interface value is a run-time panic.
\<close>

datatype error = ErrSubscriptionNotFound | Err string

datatype panic = NilPointerDereference

text \<open>The fields of \<^verbatim>\<open>config.RPCConfig\<close> that the package reads.\<close>

record RPCConfig =
  MaxOpenConnections :: int64
  MaxBodyBytes :: int64
  MaxHeaderBytes :: int64
  TimeoutBroadcastTxCommit :: Duration
  CORSAllowedOrigins :: "string list"
  CORSAllowedMethods :: "string list"
  CORSAllowedHeaders :: "string list"

text \<open>
  The transport configuration \<^verbatim>\<open>server.Config\<close>. Its size limits carry the prefix
  \<open>cfg_\<close> because \<^verbatim>\<open>RPCConfig\<close> has fields of the same names.
\<close>

record Config =
  cfg_MaxBodyBytes :: int64
  cfg_MaxHeaderBytes :: int64
  ReadTimeout :: Duration
  WriteTimeout :: Duration

section \<open>Config mapper\<close>

text \<open>
  \<^verbatim>\<open>serverRPCConfig\<close>. The value of \<^verbatim>\<open>rpcserver.DefaultConfig()\<close> is declared in
  another package, so it is the parameter \<open>DefaultConfig\<close>.
\<close>

definition serverRPCConfig :: "Config \<Rightarrow> RPCConfig \<Rightarrow> Config" where
  "serverRPCConfig DefaultConfig r =
     (let cfg = DefaultConfig;
          cfg = cfg\<lparr>cfg_MaxBodyBytes := MaxBodyBytes r\<rparr>;
          cfg = cfg\<lparr>cfg_MaxHeaderBytes := MaxHeaderBytes r\<rparr>
      in if word_sle (WriteTimeout cfg) (TimeoutBroadcastTxCommit r)
         then cfg\<lparr>WriteTimeout := TimeoutBroadcastTxCommit r + 1 * Second\<rparr>
         else cfg)"

section \<open>Route table\<close>

text \<open>
  \<^verbatim>\<open>core.Environment\<close> with the three fields that \<^verbatim>\<open>Routes\<close> sets; the stores and
  the event sinks are opaque handles, hence type parameters.
\<close>

record ('st, 'bs, 'es) Environment =
  EventSinks :: "'es list"
  StateStore :: 'st
  BlockStore :: 'bs

text \<open>The query methods of the environment that the table binds.\<close>

datatype EnvMethod =
  BlockchainInfo | ConsensusParams | Block | BlockByHash | BlockResults
  | Commit | Validators | Tx | TxSearch | BlockSearch

text \<open>A method value such as \<^verbatim>\<open>env.Block\<close>: the method together with its receiver.\<close>

datatype 'env method_value = MethodValue 'env EnvMethod

record 'f RPCFunc =
  f :: 'f
  argNames :: "string list"
  cacheable :: bool

type_synonym 'f RoutesMap = "string \<rightharpoonup> 'f RPCFunc"

text \<open>\<^verbatim>\<open>strings.Split(s, ",")\<close> on a non-empty string.\<close>

fun split_commas :: "string \<Rightarrow> string list" where
  "split_commas [] = [[]]"
| "split_commas (c # cs) =
     (if c = CHR '','' then [] # split_commas cs
      else (case split_commas cs of
              [] \<Rightarrow> [[c]]
            | w # ws \<Rightarrow> (c # w) # ws))"

text \<open>
  Modelled from the spec: \<^verbatim>\<open>rpcserver.NewRPCFunc\<close> is declared in another package. A
  route entry holds the handler reference, the ordered sequence of parameter names (the
  comma-separated argument string, none when it is empty) and the cacheable flag.
\<close>

definition NewRPCFunc :: "'f \<Rightarrow> string \<Rightarrow> bool \<Rightarrow> 'f RPCFunc" where
  "NewRPCFunc fn args cache =
     \<lparr>f = fn, argNames = (if args = [] then [] else split_commas args), cacheable = cache\<rparr>"

text \<open>
  \<^verbatim>\<open>Routes\<close>. The map literal is the list of its key-value pairs; Go rejects a map
  literal with a repeated constant key, so \<open>map_of\<close> loses nothing.
\<close>

definition Routes_entries ::
  "'st \<Rightarrow> 'bs \<Rightarrow> 'es list
     \<Rightarrow> (string \<times> ('st, 'bs, 'es) Environment method_value RPCFunc) list" where
  "Routes_entries store blockStore eventSinks =
     (let env = \<lparr>EventSinks = eventSinks, StateStore = store, BlockStore = blockStore\<rparr>
      in [(''blockchain'', NewRPCFunc (MethodValue env BlockchainInfo) ''minHeight,maxHeight'' True),
          (''consensus_params'', NewRPCFunc (MethodValue env ConsensusParams) ''height'' True),
          (''block'', NewRPCFunc (MethodValue env Block) ''height'' True),
          (''block_by_hash'', NewRPCFunc (MethodValue env BlockByHash) ''hash'' True),
          (''block_results'', NewRPCFunc (MethodValue env BlockResults) ''height'' True),
          (''commit'', NewRPCFunc (MethodValue env Commit) ''height'' True),
          (''validators'', NewRPCFunc (MethodValue env Validators) ''height,page,per_page'' True),
          (''tx'', NewRPCFunc (MethodValue env Tx) ''hash,prove'' True),
          (''tx_search'',
             NewRPCFunc (MethodValue env TxSearch) ''query,prove,page,per_page,order_by'' False),
          (''block_search'',
             NewRPCFunc (MethodValue env BlockSearch) ''query,page,per_page,order_by'' False)])"

definition Routes ::
  "'st \<Rightarrow> 'bs \<Rightarrow> 'es list \<Rightarrow> ('st, 'bs, 'es) Environment method_value RoutesMap" where
  "Routes store blockStore eventSinks = map_of (Routes_entries store blockStore eventSinks)"

section \<open>Subscription cleanup\<close>

text \<open>
  A logger is known by the key-value context it carries; \<^verbatim>\<open>With\<close> extends the
  context. A call of \<^verbatim>\<open>Error\<close> adds one entry to the log of the world.
\<close>

datatype Logger = Logger "(string \<times> string) list"

fun With :: "Logger \<Rightarrow> string \<Rightarrow> string \<Rightarrow> Logger" where
  "With (Logger kvs) k v = Logger (kvs @ [(k, v)])"

datatype log_value = StringValue string | ErrorValue "error option"

record log_entry =
  entry_logger :: Logger
  entry_msg :: string
  entry_keyvals :: "(string \<times> log_value) list"

text \<open>
  What the cleanup routine does to its surroundings: the \<^verbatim>\<open>UnsubscribeAll\<close> calls that
  reached an event bus (by subscriber, in order) and the error entries logged.
\<close>

record world =
  unsubscribe_calls :: "string list"
  error_log :: "log_entry list"

text \<open>
  An implementation of the interface \<^verbatim>\<open>types.EventBusSubscriber\<close>, given by what its
  \<^verbatim>\<open>UnsubscribeAll\<close> returns for a subscriber (\<open>None\<close> is Go's nil error). An interface
  value is an \<open>option\<close>: \<open>None\<close> is the nil interface.
\<close>

datatype EventBusSubscriber = EventBus "string \<Rightarrow> error option"

fun UnsubscribeAll :: "EventBusSubscriber \<Rightarrow> string \<Rightarrow> world \<Rightarrow> error option \<times> world" where
  "UnsubscribeAll (EventBus result) subscriber w =
     (result subscriber, w\<lparr>unsubscribe_calls := unsubscribe_calls w @ [subscriber]\<rparr>)"

definition Error :: "Logger \<Rightarrow> string \<Rightarrow> (string \<times> log_value) list \<Rightarrow> world \<Rightarrow> world" where
  "Error l msg kvs w =
     w\<lparr>error_log := error_log w @ [\<lparr>entry_logger = l, entry_msg = msg, entry_keyvals = kvs\<rparr>]\<rparr>"

text \<open>
  The closure \<^verbatim>\<open>websocketDisconnectFn\<close> of \<^verbatim>\<open>Handler\<close>, with the two variables it
  captures (\<^verbatim>\<open>eventBus\<close> and \<^verbatim>\<open>wmLogger\<close>) as its first arguments. The result is
  \<open>Inr ()\<close> when the closure returns and \<open>Inl\<close> when it panics.
\<close>

definition websocketDisconnectFn ::
  "EventBusSubscriber option \<Rightarrow> Logger \<Rightarrow> string \<Rightarrow> world \<Rightarrow> (panic + unit) \<times> world" where
  "websocketDisconnectFn eventBus wmLogger remoteAddr w =
     (case eventBus of
        None \<Rightarrow> (Inl NilPointerDereference, w)
      | Some bus \<Rightarrow>
          (let (err, w1) = UnsubscribeAll bus remoteAddr w
           in if err \<noteq> None \<and> err \<noteq> Some ErrSubscriptionNotFound
              then (Inr (),
                    Error wmLogger ''Failed to unsubscribe addr from events''
                      [(''addr'', StringValue remoteAddr), (''err'', ErrorValue err)] w1)
              else (Inr (), w1)))"

section \<open>Handler composer\<close>

text \<open>
  The websocket manager, the multiplexer and the CORS middleware come from other
  packages. Each is modelled by how \<^verbatim>\<open>Handler\<close> builds it: a manager is the routes
  and options given to \<^verbatim>\<open>NewWebsocketManager\<close> and the logger set on it, a
  multiplexer is the sequence of registrations made on it, in call order, and the CORS
  middleware is a wrapper around a handler that carries its options.
\<close>

record 'f WebsocketManager =
  funcMap :: "'f RoutesMap"
  onDisconnect :: "string \<Rightarrow> world \<Rightarrow> (panic + unit) \<times> world"
  readLimit :: int64
  wm_logger :: Logger

datatype 'f registration =
  HandleFunc string "'f WebsocketManager"
  | RegisterRPCFuncs "'f RoutesMap" Logger

type_synonym 'f ServeMux = "'f registration list"

record cors_Options =
  AllowedOrigins :: "string list"
  AllowedMethods :: "string list"
  AllowedHeaders :: "string list"

datatype 'f http_Handler =
  Mux "'f ServeMux"
  | CorsHandler cors_Options "'f http_Handler"

definition NewWebsocketManager ::
  "'f RoutesMap \<Rightarrow> (string \<Rightarrow> world \<Rightarrow> (panic + unit) \<times> world) \<Rightarrow> int64 \<Rightarrow> Logger
     \<Rightarrow> 'f WebsocketManager" where
  "NewWebsocketManager routes disconnectFn limit l =
     \<lparr>funcMap = routes, onDisconnect = disconnectFn, readLimit = limit, wm_logger = l\<rparr>"

text \<open>\<^verbatim>\<open>addCORSHandler\<close>.\<close>

definition addCORSHandler :: "RPCConfig \<Rightarrow> 'f http_Handler \<Rightarrow> 'f http_Handler" where
  "addCORSHandler rpcConfig h =
     (let corsMiddleware =
            \<lparr>AllowedOrigins = CORSAllowedOrigins rpcConfig,
             AllowedMethods = CORSAllowedMethods rpcConfig,
             AllowedHeaders = CORSAllowedHeaders rpcConfig\<rparr>
      in CorsHandler corsMiddleware h)"

text \<open>
  The multiplexer that \<^verbatim>\<open>Handler\<close> fills: the websocket endpoint first, then the
  JSON-RPC registrations. The variable \<^verbatim>\<open>eventBus\<close> is declared without a value and
  nothing assigns it, so the closure captures the nil interface.
\<close>

definition Handler_mux :: "RPCConfig \<Rightarrow> 'f RoutesMap \<Rightarrow> Logger \<Rightarrow> 'f ServeMux" where
  "Handler_mux rpcConfig routes logger =
     (let mux = [];
          wmLogger = With logger ''protocol'' ''websocket'';
          eventBus = None;
          wm = NewWebsocketManager routes (websocketDisconnectFn eventBus wmLogger)
                 (MaxBodyBytes rpcConfig) wmLogger;
          mux = mux @ [HandleFunc ''/websocket'' wm];
          mux = mux @ [RegisterRPCFuncs routes logger]
      in mux)"

text \<open>
  \<^verbatim>\<open>Handler\<close>. The method \<^verbatim>\<open>IsCorsEnabled\<close> of the configuration is declared in
  another package, so it is the first parameter.
\<close>

definition Handler ::
  "(RPCConfig \<Rightarrow> bool) \<Rightarrow> RPCConfig \<Rightarrow> 'f RoutesMap \<Rightarrow> Logger \<Rightarrow> 'f http_Handler" where
  "Handler IsCorsEnabled rpcConfig routes logger =
     (let mux = Mux (Handler_mux rpcConfig routes logger);
          rootHandler = mux
      in if IsCorsEnabled rpcConfig then addCORSHandler rpcConfig mux else rootHandler)"

text \<open>Reading a handler: whether CORS is its outermost layer, and its multiplexer.\<close>

fun cors_wrapped :: "'f http_Handler \<Rightarrow> bool" where
  "cors_wrapped (Mux m) = False"
| "cors_wrapped (CorsHandler opts h) = True"

fun mux_of :: "'f http_Handler \<Rightarrow> 'f ServeMux" where
  "mux_of (Mux m) = m"
| "mux_of (CorsHandler opts h) = mux_of h"

fun websocket_endpoints :: "'f ServeMux \<Rightarrow> (string \<times> 'f WebsocketManager) list" where
  "websocket_endpoints [] = []"
| "websocket_endpoints (HandleFunc pattern wm # rs) = (pattern, wm) # websocket_endpoints rs"
| "websocket_endpoints (RegisterRPCFuncs routes l # rs) = websocket_endpoints rs"

fun rpc_route_tables :: "'f ServeMux \<Rightarrow> 'f RoutesMap list" where
  "rpc_route_tables [] = []"
| "rpc_route_tables (HandleFunc pattern wm # rs) = rpc_route_tables rs"
| "rpc_route_tables (RegisterRPCFuncs routes l # rs) = routes # rpc_route_tables rs"

text \<open>
  Serving a request. What a multiplexer answers and what the CORS middleware does
  around an inner handler belong to other packages: they are the parameters \<open>serveMux\<close>
  and \<open>serveCors\<close>.
\<close>

fun ServeHTTP ::
  "('f ServeMux \<Rightarrow> 'req \<Rightarrow> 'resp) \<Rightarrow> (cors_Options \<Rightarrow> ('req \<Rightarrow> 'resp) \<Rightarrow> 'req \<Rightarrow> 'resp)
     \<Rightarrow> 'f http_Handler \<Rightarrow> 'req \<Rightarrow> 'resp" where
  "ServeHTTP serveMux serveCors (Mux m) = serveMux m"
| "ServeHTTP serveMux serveCors (CorsHandler opts h) =
     serveCors opts (ServeHTTP serveMux serveCors h)"

section \<open>Server lifecycle\<close>

record 'f Server =
  Addr :: string
  srv_Handler :: "'f http_Handler"
  srv_Logger :: Logger
  srv_Config :: RPCConfig

text \<open>A listener and a cancellation context are opaque handles.\<close>

datatype Listener = Listener nat

datatype Context = Context nat

text \<open>
  The calls that \<^verbatim>\<open>ListenAndServe\<close> and \<^verbatim>\<open>ListenAndServeTLS\<close> make, in program
  order. \<open>GoWatcher ctx l\<close> is the \<^verbatim>\<open>go\<close> statement that starts the goroutine waiting
  for \<^verbatim>\<open>ctx.Done()\<close> and then closing \<open>l\<close>.
\<close>

datatype 'f action =
  ListenCall string int64
  | GoWatcher Context Listener
  | ServeCall Listener "'f http_Handler" Logger Config
  | ServeTLSCall Listener "'f http_Handler" string string Logger Config

text \<open>
  \<^verbatim>\<open>ListenAndServe\<close>. The results of \<^verbatim>\<open>rpcserver.Listen\<close> and \<^verbatim>\<open>rpcserver.Serve\<close>
  are the parameters \<open>listen\<close> and \<open>serve\<close>; the result is the returned error (\<open>None\<close> is
  nil) with the calls made.
\<close>

definition ListenAndServe ::
  "(string \<Rightarrow> int64 \<Rightarrow> error + Listener)
     \<Rightarrow> (Listener \<Rightarrow> 'f http_Handler \<Rightarrow> Logger \<Rightarrow> Config \<Rightarrow> error option)
     \<Rightarrow> Config \<Rightarrow> 'f Server \<Rightarrow> Context \<Rightarrow> error option \<times> 'f action list" where
  "ListenAndServe listen serve DefaultConfig srv ctx =
     (let t0 = [ListenCall (Addr srv) (MaxOpenConnections (srv_Config srv))]
      in case listen (Addr srv) (MaxOpenConnections (srv_Config srv)) of
           Inl err \<Rightarrow> (Some err, t0)
         | Inr listener \<Rightarrow>
             (let t1 = t0 @ [GoWatcher ctx listener];
                  cfg = serverRPCConfig DefaultConfig (srv_Config srv)
              in (serve listener (srv_Handler srv) (srv_Logger srv) cfg,
                  t1 @ [ServeCall listener (srv_Handler srv) (srv_Logger srv) cfg])))"

text \<open>\<^verbatim>\<open>ListenAndServeTLS\<close>, with the result of \<^verbatim>\<open>rpcserver.ServeTLS\<close> as \<open>serveTLS\<close>.\<close>

definition ListenAndServeTLS ::
  "(string \<Rightarrow> int64 \<Rightarrow> error + Listener)
     \<Rightarrow> (Listener \<Rightarrow> 'f http_Handler \<Rightarrow> string \<Rightarrow> string \<Rightarrow> Logger \<Rightarrow> Config \<Rightarrow> error option)
     \<Rightarrow> Config \<Rightarrow> 'f Server \<Rightarrow> Context \<Rightarrow> string \<Rightarrow> string
     \<Rightarrow> error option \<times> 'f action list" where
  "ListenAndServeTLS listen serveTLS DefaultConfig srv ctx certFile keyFile =
     (let t0 = [ListenCall (Addr srv) (MaxOpenConnections (srv_Config srv))]
      in case listen (Addr srv) (MaxOpenConnections (srv_Config srv)) of
           Inl err \<Rightarrow> (Some err, t0)
         | Inr listener \<Rightarrow>
             (let t1 = t0 @ [GoWatcher ctx listener];
                  cfg = serverRPCConfig DefaultConfig (srv_Config srv)
              in (serveTLS listener (srv_Handler srv) certFile keyFile (srv_Logger srv) cfg,
                  t1 @ [ServeTLSCall listener (srv_Handler srv) certFile keyFile
                          (srv_Logger srv) cfg])))"

text \<open>Forgetting TLS termination: a TLS serve call read as a plain one.\<close>

fun without_tls :: "'f action \<Rightarrow> 'f action" where
  "without_tls (ServeTLSCall l h certFile keyFile lg cfg) = ServeCall l h lg cfg"
| "without_tls a = a"

section \<open>Concrete inputs\<close>

text \<open>
  Inputs on which the theorems below are run: a transport default with a write timeout
  of 10 seconds, an RPC configuration with a broadcast-commit timeout of 15 seconds and
  no CORS origin, and the reading of \<^verbatim>\<open>IsCorsEnabled\<close> as "some origin is allowed".
\<close>

definition default_10s :: Config where
  "default_10s =
     \<lparr>cfg_MaxBodyBytes = 1000000, cfg_MaxHeaderBytes = 1048576,
      ReadTimeout = 10 * Second, WriteTimeout = 10 * Second\<rparr>"

definition rpc_15s :: RPCConfig where
  "rpc_15s =
     \<lparr>MaxOpenConnections = 900, MaxBodyBytes = 2000000, MaxHeaderBytes = 4096,
      TimeoutBroadcastTxCommit = 15 * Second, CORSAllowedOrigins = [],
      CORSAllowedMethods = [''HEAD'', ''GET'', ''POST''],
      CORSAllowedHeaders = [''Origin'', ''Accept'']\<rparr>"

definition origins_allowed :: "RPCConfig \<Rightarrow> bool" where
  "origins_allowed c = (CORSAllowedOrigins c \<noteq> [])"

definition no_routes :: "nat RoutesMap" where
  "no_routes = Map.empty"

definition empty_world :: world where
  "empty_world = \<lparr>unsubscribe_calls = [], error_log = []\<rparr>"

definition inspect_server :: "nat Server" where
  "inspect_server =
     \<lparr>Addr = ''tcp://127.0.0.1:26657'',
      srv_Handler = Handler origins_allowed rpc_15s no_routes (Logger []),
      srv_Logger = Logger [], srv_Config = rpc_15s\<rparr>"

section \<open>The route table\<close>

lemma split_commas_tabulated:
  "split_commas ''minHeight,maxHeight'' = [''minHeight'', ''maxHeight'']"
  "split_commas ''height'' = [''height'']"
  "split_commas ''hash'' = [''hash'']"
  "split_commas ''height,page,per_page'' = [''height'', ''page'', ''per_page'']"
  "split_commas ''hash,prove'' = [''hash'', ''prove'']"
  "split_commas ''query,prove,page,per_page,order_by'' =
     [''query'', ''prove'', ''page'', ''per_page'', ''order_by'']"
  "split_commas ''query,page,per_page,order_by'' = [''query'', ''page'', ''per_page'', ''order_by'']"
  by simp_all

lemma Routes_entries_keys:
  "map fst (Routes_entries store blockStore eventSinks) =
     [''blockchain'', ''consensus_params'', ''block'', ''block_by_hash'', ''block_results'',
      ''commit'', ''validators'', ''tx'', ''tx_search'', ''block_search'']"
  by (simp add: Routes_entries_def Let_def)

lemma Routes_entries_distinct: "distinct (map fst (Routes_entries store blockStore eventSinks))"
  unfolding Routes_entries_keys by simp

lemma Routes_dom:
  "dom (Routes store blockStore eventSinks) =
     {''blockchain'', ''consensus_params'', ''block'', ''block_by_hash'', ''block_results'',
      ''commit'', ''validators'', ''tx'', ''tx_search'', ''block_search''}"
proof -
  have "dom (Routes store blockStore eventSinks) =
          set (map fst (Routes_entries store blockStore eventSinks))"
    by (simp add: Routes_def dom_map_of_conv_image_fst)
  then show ?thesis unfolding Routes_entries_keys by simp
qed

lemma Routes_card: "card (dom (Routes store blockStore eventSinks)) = 10"
  unfolding Routes_dom by simp

lemma Routes_lookup:
  fixes store :: 'st and blockStore :: 'bs and eventSinks :: "'es list"
  defines "env \<equiv> \<lparr>EventSinks = eventSinks, StateStore = store, BlockStore = blockStore\<rparr>"
  defines "R \<equiv> Routes store blockStore eventSinks"
  shows "R ''blockchain'' =
           Some \<lparr>f = MethodValue env BlockchainInfo,
                 argNames = [''minHeight'', ''maxHeight''], cacheable = True\<rparr>"
    and "R ''consensus_params'' =
           Some \<lparr>f = MethodValue env ConsensusParams, argNames = [''height''], cacheable = True\<rparr>"
    and "R ''block'' =
           Some \<lparr>f = MethodValue env Block, argNames = [''height''], cacheable = True\<rparr>"
    and "R ''block_by_hash'' =
           Some \<lparr>f = MethodValue env BlockByHash, argNames = [''hash''], cacheable = True\<rparr>"
    and "R ''block_results'' =
           Some \<lparr>f = MethodValue env BlockResults, argNames = [''height''], cacheable = True\<rparr>"
    and "R ''commit'' =
           Some \<lparr>f = MethodValue env Commit, argNames = [''height''], cacheable = True\<rparr>"
    and "R ''validators'' =
           Some \<lparr>f = MethodValue env Validators,
                 argNames = [''height'', ''page'', ''per_page''], cacheable = True\<rparr>"
    and "R ''tx'' =
           Some \<lparr>f = MethodValue env Tx, argNames = [''hash'', ''prove''], cacheable = True\<rparr>"
    and "R ''tx_search'' =
           Some \<lparr>f = MethodValue env TxSearch,
                 argNames = [''query'', ''prove'', ''page'', ''per_page'', ''order_by''],
                 cacheable = False\<rparr>"
    and "R ''block_search'' =
           Some \<lparr>f = MethodValue env BlockSearch,
                 argNames = [''query'', ''page'', ''per_page'', ''order_by''],
                 cacheable = False\<rparr>"
  by (simp_all add: R_def env_def Routes_def Routes_entries_def NewRPCFunc_def Let_def)

text \<open>
  C1. For every state store, block store and event sinks, the table returned by
  \<^verbatim>\<open>Routes\<close> has exactly the ten keys of the canonical table, each written once in
  the map literal, and each key is bound to its handler of the environment built from
  the three arguments, with the tabulated parameter names in the tabulated order and
  the tabulated cacheable flag.
\<close>

theorem Routes_canonical_table:
  fixes store :: 'st and blockStore :: 'bs and eventSinks :: "'es list"
  defines "env \<equiv> \<lparr>EventSinks = eventSinks, StateStore = store, BlockStore = blockStore\<rparr>"
  defines "R \<equiv> Routes store blockStore eventSinks"
  shows "dom R =
           {''blockchain'', ''consensus_params'', ''block'', ''block_by_hash'',
            ''block_results'', ''commit'', ''validators'', ''tx'', ''tx_search'',
            ''block_search''}
         \<and> card (dom R) = 10
         \<and> distinct (map fst (Routes_entries store blockStore eventSinks))
         \<and> R ''blockchain'' =
             Some \<lparr>f = MethodValue env BlockchainInfo,
                   argNames = [''minHeight'', ''maxHeight''], cacheable = True\<rparr>
         \<and> R ''consensus_params'' =
             Some \<lparr>f = MethodValue env ConsensusParams, argNames = [''height''],
                   cacheable = True\<rparr>
         \<and> R ''block'' =
             Some \<lparr>f = MethodValue env Block, argNames = [''height''], cacheable = True\<rparr>
         \<and> R ''block_by_hash'' =
             Some \<lparr>f = MethodValue env BlockByHash, argNames = [''hash''], cacheable = True\<rparr>
         \<and> R ''block_results'' =
             Some \<lparr>f = MethodValue env BlockResults, argNames = [''height''], cacheable = True\<rparr>
         \<and> R ''commit'' =
             Some \<lparr>f = MethodValue env Commit, argNames = [''height''], cacheable = True\<rparr>
         \<and> R ''validators'' =
             Some \<lparr>f = MethodValue env Validators,
                   argNames = [''height'', ''page'', ''per_page''], cacheable = True\<rparr>
         \<and> R ''tx'' =
             Some \<lparr>f = MethodValue env Tx, argNames = [''hash'', ''prove''], cacheable = True\<rparr>
         \<and> R ''tx_search'' =
             Some \<lparr>f = MethodValue env TxSearch,
                   argNames = [''query'', ''prove'', ''page'', ''per_page'', ''order_by''],
                   cacheable = False\<rparr>
         \<and> R ''block_search'' =
             Some \<lparr>f = MethodValue env BlockSearch,
                   argNames = [''query'', ''page'', ''per_page'', ''order_by''],
                   cacheable = False\<rparr>"
  unfolding R_def env_def
  using Routes_dom [of store blockStore eventSinks]
    Routes_card [of store blockStore eventSinks]
    Routes_entries_distinct [of store blockStore eventSinks]
    Routes_lookup [of store blockStore eventSinks]
  by (intro conjI) assumption+

theorem Routes_canonical_table_witness:
  "card (dom (Routes (1::nat) (2::nat) [3::nat])) = 10
   \<and> map_option argNames (Routes (1::nat) (2::nat) [3::nat] ''validators'') =
       Some [''height'', ''page'', ''per_page'']
   \<and> map_option cacheable (Routes (1::nat) (2::nat) [3::nat] ''tx_search'') = Some False
   \<and> Routes (1::nat) (2::nat) [3::nat] ''broadcast_tx_commit'' = None"
proof -
  note t = Routes_canonical_table [of "1::nat" "2::nat" "[3::nat]"]
  have "''broadcast_tx_commit'' \<notin> dom (Routes (1::nat) (2::nat) [3::nat])"
    using t by simp
  then have "Routes (1::nat) (2::nat) [3::nat] ''broadcast_tx_commit'' = None"
    by (simp add: dom_def)
  then show ?thesis using t by simp
qed

section \<open>The config mapper\<close>

text \<open>
  The write timeout of the derived configuration, in Go's arithmetic on durations
  (signed 64-bit nanosecond counts, \<open>+\<close> wrapping around).
\<close>

lemma serverRPCConfig_WriteTimeout_word:
  "WriteTimeout (serverRPCConfig d r) =
     (if word_sle (WriteTimeout d) (TimeoutBroadcastTxCommit r)
      then TimeoutBroadcastTxCommit r + Second
      else WriteTimeout d)"
  by (simp add: serverRPCConfig_def Let_def)

text \<open>The examples of the specification: 10s and 15s give 16s; 30s and 5s give 30s.\<close>

lemma serverRPCConfig_WriteTimeout_adjusted:
  "WriteTimeout (serverRPCConfig default_10s rpc_15s) = 16 * Second"
  by (simp add: serverRPCConfig_def default_10s_def rpc_15s_def Second_def word_sle_eq)

lemma serverRPCConfig_WriteTimeout_unchanged:
  "WriteTimeout (serverRPCConfig (default_10s\<lparr>WriteTimeout := 30 * Second\<rparr>)
     (rpc_15s\<lparr>TimeoutBroadcastTxCommit := 5 * Second\<rparr>)) = 30 * Second"
  by (simp add: serverRPCConfig_def default_10s_def rpc_15s_def Second_def word_sle_eq)

text \<open>
  Read as integers, the derived write timeout is the commit timeout plus one second,
  or the default, as long as the commit timeout is at least one second below the
  largest duration.
\<close>

lemma serverRPCConfig_WriteTimeout_sint:
  assumes "sint (TimeoutBroadcastTxCommit r) \<le> 2 ^ 63 - 1 - 1000000000"
  shows "sint (WriteTimeout (serverRPCConfig d r)) =
           (if sint (WriteTimeout d) \<le> sint (TimeoutBroadcastTxCommit r)
            then sint (TimeoutBroadcastTxCommit r) + 1000000000
            else sint (WriteTimeout d))"
proof -
  let ?t = "TimeoutBroadcastTxCommit r"
  have s: "sint Second = 1000000000" by (simp add: Second_def)
  have lo: "- (2 ^ 63) \<le> sint ?t" using sint_ge [of ?t] by simp
  have "sint (?t + Second) = signed_take_bit 63 (sint ?t + sint Second)"
    by (simp add: sint_word_ariths)
  also have "\<dots> = sint ?t + sint Second"
    using lo assms s by (intro signed_take_bit_int_eq_self) simp_all
  finally have "sint (?t + Second) = sint ?t + 1000000000" using s by simp
  then show ?thesis
    by (simp add: serverRPCConfig_def Let_def word_sle_eq)
qed

text \<open>
  C2, at the default of 10 seconds and a broadcast-commit timeout of 9223372036854775807
  nanoseconds, the largest duration: the default is at most the commit timeout, so the
  write timeout is adjusted, and Go's addition wraps around. The derived write timeout
  is negative: it is not the commit timeout plus one second, and it is below the commit
  timeout, which the adjustment is there to exceed.
\<close>

theorem serverRPCConfig_WriteTimeout_failing_input:
  "word_sle (WriteTimeout default_10s) (9223372036854775807 :: Duration)
   \<and> sint (WriteTimeout (serverRPCConfig default_10s
              (rpc_15s\<lparr>TimeoutBroadcastTxCommit := 9223372036854775807\<rparr>))) =
       - 9223372035854775809
   \<and> sint (WriteTimeout (serverRPCConfig default_10s
              (rpc_15s\<lparr>TimeoutBroadcastTxCommit := 9223372036854775807\<rparr>))) \<noteq>
       sint (9223372036854775807 :: Duration) + sint Second
   \<and> sint (WriteTimeout (serverRPCConfig default_10s
              (rpc_15s\<lparr>TimeoutBroadcastTxCommit := 9223372036854775807\<rparr>))) <
       sint (9223372036854775807 :: Duration)"
  by (simp add: serverRPCConfig_def default_10s_def rpc_15s_def Second_def word_sle_eq)

text \<open>
  C9. For every transport default and RPC configuration, the derived configuration
  carries the maximum body bytes and the maximum header bytes of the RPC configuration
  unchanged, whatever the default held.
\<close>

theorem serverRPCConfig_size_limits:
  "cfg_MaxBodyBytes (serverRPCConfig d r) = MaxBodyBytes r
   \<and> cfg_MaxHeaderBytes (serverRPCConfig d r) = MaxHeaderBytes r"
  by (simp add: serverRPCConfig_def Let_def)

theorem serverRPCConfig_size_limits_witness:
  "cfg_MaxBodyBytes (serverRPCConfig default_10s rpc_15s) = 2000000
   \<and> cfg_MaxHeaderBytes (serverRPCConfig default_10s rpc_15s) = 4096"
  using serverRPCConfig_size_limits [of default_10s rpc_15s]
  by (simp add: rpc_15s_def)

section \<open>The handler composer\<close>

lemma Handler_mux_eq:
  "Handler_mux rpcConfig routes logger =
     [HandleFunc ''/websocket''
        (NewWebsocketManager routes
           (websocketDisconnectFn None (With logger ''protocol'' ''websocket''))
           (MaxBodyBytes rpcConfig) (With logger ''protocol'' ''websocket'')),
      RegisterRPCFuncs routes logger]"
  by (simp add: Handler_mux_def Let_def)

lemma mux_of_Handler:
  "mux_of (Handler en rpcConfig routes logger) = Handler_mux rpcConfig routes logger"
  by (simp add: Handler_def addCORSHandler_def Let_def)

text \<open>
  C3. For every route table, configuration and logger, the handler produced by
  \<^verbatim>\<open>Handler\<close> has the CORS middleware as its outermost layer exactly when the
  CORS-enabled predicate holds of the configuration. When it holds, the middleware is
  built from the configured allowed origins, methods and headers around the
  multiplexer; when it does not, the handler is the multiplexer itself, so that every
  request is answered as the multiplexer answers it.
\<close>

theorem Handler_cors_iff_enabled:
  "cors_wrapped (Handler en rpcConfig routes logger) = en rpcConfig
   \<and> Handler en rpcConfig routes logger =
       (if en rpcConfig
        then CorsHandler
               \<lparr>AllowedOrigins = CORSAllowedOrigins rpcConfig,
                AllowedMethods = CORSAllowedMethods rpcConfig,
                AllowedHeaders = CORSAllowedHeaders rpcConfig\<rparr>
               (Mux (Handler_mux rpcConfig routes logger))
        else Mux (Handler_mux rpcConfig routes logger))
   \<and> ServeHTTP serveMux serveCors (Handler en rpcConfig routes logger) req =
       (if en rpcConfig
        then serveCors
               \<lparr>AllowedOrigins = CORSAllowedOrigins rpcConfig,
                AllowedMethods = CORSAllowedMethods rpcConfig,
                AllowedHeaders = CORSAllowedHeaders rpcConfig\<rparr>
               (serveMux (Handler_mux rpcConfig routes logger)) req
        else serveMux (Handler_mux rpcConfig routes logger) req)"
  by (simp add: Handler_def addCORSHandler_def Let_def)

text \<open>
  With no allowed origin CORS is off: a multiplexer that answers with the number of
  its registrations, under a middleware that would add one, answers 2.
\<close>

theorem Handler_cors_iff_enabled_witness:
  "\<not> cors_wrapped (Handler origins_allowed rpc_15s no_routes (Logger []))
   \<and> ServeHTTP (\<lambda>m (req :: nat). length m) (\<lambda>opts h req. Suc (h req))
       (Handler origins_allowed rpc_15s no_routes (Logger [])) 0 = 2"
  using Handler_cors_iff_enabled
    [of origins_allowed rpc_15s no_routes "Logger []"
        "\<lambda>m (req :: nat). length m" "\<lambda>opts h req. Suc (h req)" 0]
  by (simp add: origins_allowed_def rpc_15s_def Handler_mux_eq)

text \<open>With an allowed origin the same request passes through the middleware.\<close>

lemma Handler_cors_enabled_example:
  "cors_wrapped (Handler origins_allowed (rpc_15s\<lparr>CORSAllowedOrigins := [''*'']\<rparr>)
     no_routes (Logger []))
   \<and> ServeHTTP (\<lambda>m (req :: nat). length m) (\<lambda>opts h req. Suc (h req))
       (Handler origins_allowed (rpc_15s\<lparr>CORSAllowedOrigins := [''*'']\<rparr>)
          no_routes (Logger [])) 0 = 3"
  by (simp add: Handler_def addCORSHandler_def Let_def origins_allowed_def rpc_15s_def
      Handler_mux_eq)

text \<open>
  C10. For every route table and configuration, \<^verbatim>\<open>Handler\<close> registers one websocket
  endpoint, at the path \<^verbatim>\<open>/websocket\<close>; the websocket manager serving it is built over
  the route table given to \<^verbatim>\<open>Handler\<close>, and the JSON-RPC registration is made with
  that same table.
\<close>

theorem Handler_websocket_endpoint:
  "map fst (websocket_endpoints (mux_of (Handler en rpcConfig routes logger))) =
     [''/websocket'']
   \<and> map (\<lambda>e. funcMap (snd e))
       (websocket_endpoints (mux_of (Handler en rpcConfig routes logger))) = [routes]
   \<and> rpc_route_tables (mux_of (Handler en rpcConfig routes logger)) = [routes]"
  by (simp add: mux_of_Handler Handler_mux_eq NewWebsocketManager_def)

theorem Handler_websocket_endpoint_witness:
  "map fst (websocket_endpoints
             (mux_of (Handler origins_allowed rpc_15s (Routes (1::nat) (2::nat) [3::nat])
                        (Logger [])))) = [''/websocket'']
   \<and> map (\<lambda>e. map_option cacheable (funcMap (snd e) ''block''))
       (websocket_endpoints
          (mux_of (Handler origins_allowed rpc_15s (Routes (1::nat) (2::nat) [3::nat])
                     (Logger [])))) = [Some True]"
proof -
  note t = Handler_websocket_endpoint
    [of origins_allowed rpc_15s "Routes (1::nat) (2::nat) [3::nat]" "Logger []"]
  let ?es = "websocket_endpoints
          (mux_of (Handler origins_allowed rpc_15s (Routes (1::nat) (2::nat) [3::nat])
                     (Logger [])))"
  have "map (\<lambda>e. map_option cacheable (funcMap (snd e) ''block'')) ?es =
          map (\<lambda>r. map_option cacheable (r ''block'')) (map (\<lambda>e. funcMap (snd e)) ?es)"
    by (simp add: comp_def)
  also have "\<dots> = [map_option cacheable (Routes (1::nat) (2::nat) [3::nat] ''block'')]"
    using t by simp
  also have "\<dots> = [Some True]"
    by (simp add: Routes_lookup)
  finally show ?thesis using t by simp
qed

section \<open>Subscription cleanup\<close>

text \<open>
  What the body of the closure does when the captured event bus is an implementation:
  one \<^verbatim>\<open>UnsubscribeAll\<close> call for the remote address, one logged entry for an error
  other than \<^verbatim>\<open>ErrSubscriptionNotFound\<close>, none otherwise, and a normal return.
\<close>

lemma websocketDisconnectFn_with_bus:
  "websocketDisconnectFn (Some (EventBus result)) wmLogger remoteAddr w =
     (Inr (),
      w\<lparr>unsubscribe_calls := unsubscribe_calls w @ [remoteAddr],
        error_log := error_log w @
          (if result remoteAddr = None \<or> result remoteAddr = Some ErrSubscriptionNotFound
           then []
           else [\<lparr>entry_logger = wmLogger,
                  entry_msg = ''Failed to unsubscribe addr from events'',
                  entry_keyvals = [(''addr'', StringValue remoteAddr),
                                   (''err'', ErrorValue (result remoteAddr))]\<rparr>])\<rparr>)"
  by (simp add: websocketDisconnectFn_def Error_def)

lemma websocketDisconnectFn_nil:
  "websocketDisconnectFn None wmLogger remoteAddr w = (Inl NilPointerDereference, w)"
  by (simp add: websocketDisconnectFn_def)

lemma Handler_onDisconnect:
  "map (\<lambda>e. onDisconnect (snd e))
     (websocket_endpoints (mux_of (Handler en rpcConfig routes logger))) =
   [websocketDisconnectFn None (With logger ''protocol'' ''websocket'')]"
  by (simp add: mux_of_Handler Handler_mux_eq NewWebsocketManager_def)

text \<open>
  C4, on the handler that \<^verbatim>\<open>Handler\<close> builds: the disconnect function of its websocket
  manager, run for the remote address \<^verbatim>\<open>10.0.0.5:4000\<close>, panics on the nil event bus.
  No \<^verbatim>\<open>UnsubscribeAll\<close> call reaches an event bus and the function does not return.
\<close>

theorem websocketDisconnectFn_failing_input:
  "map (\<lambda>e. onDisconnect (snd e) ''10.0.0.5:4000'' empty_world)
     (websocket_endpoints (mux_of (Handler origins_allowed rpc_15s no_routes (Logger [])))) =
   [(Inl NilPointerDereference, \<lparr>unsubscribe_calls = [], error_log = []\<rparr>)]"
proof -
  have "map (\<lambda>e. onDisconnect (snd e) ''10.0.0.5:4000'' empty_world)
          (websocket_endpoints
             (mux_of (Handler origins_allowed rpc_15s no_routes (Logger [])))) =
        map (\<lambda>d. d ''10.0.0.5:4000'' empty_world)
          (map (\<lambda>e. onDisconnect (snd e))
             (websocket_endpoints
                (mux_of (Handler origins_allowed rpc_15s no_routes (Logger [])))))"
    by (simp add: comp_def)
  then show ?thesis
    by (simp add: Handler_onDisconnect websocketDisconnectFn_nil empty_world_def)
qed

text \<open>
  C5. For every configuration, route table and logger, the one websocket manager
  that \<^verbatim>\<open>Handler\<close> registers has as its disconnect function the closure over the nil
  event bus (the variable is declared without a value and never assigned). Every
  invocation of it, for any remote address in any world, is the method call on that nil
  interface: it panics and changes nothing.
\<close>

theorem Handler_eventBus_nil:
  "map (\<lambda>e. onDisconnect (snd e))
     (websocket_endpoints (mux_of (Handler en rpcConfig routes logger))) =
     [websocketDisconnectFn None (With logger ''protocol'' ''websocket'')]
   \<and> map (\<lambda>e. onDisconnect (snd e) remoteAddr w)
       (websocket_endpoints (mux_of (Handler en rpcConfig routes logger))) =
     [(Inl NilPointerDereference, w)]"
  by (simp add: mux_of_Handler Handler_mux_eq NewWebsocketManager_def
      websocketDisconnectFn_nil)

theorem Handler_eventBus_nil_witness:
  "map (\<lambda>e. onDisconnect (snd e) ''192.168.1.7:51234''
              \<lparr>unsubscribe_calls = [''a''], error_log = []\<rparr>)
     (websocket_endpoints
        (mux_of (Handler origins_allowed (rpc_15s\<lparr>CORSAllowedOrigins := [''*'']\<rparr>)
                   no_routes (Logger [(''module'', ''inspect'')])))) =
   [(Inl NilPointerDereference, \<lparr>unsubscribe_calls = [''a''], error_log = []\<rparr>)]"
  using Handler_eventBus_nil
    [of origins_allowed "rpc_15s\<lparr>CORSAllowedOrigins := [''*'']\<rparr>" no_routes
        "Logger [(''module'', ''inspect'')]" "''192.168.1.7:51234''"
        "\<lparr>unsubscribe_calls = [''a''], error_log = []\<rparr>"]
  by simp

section \<open>The server lifecycle\<close>

text \<open>
  C6. For every server, \<^verbatim>\<open>ListenAndServe\<close> begins with the call of \<^verbatim>\<open>Listen\<close> on the
  configured address with the configured maximum of open connections. When that call
  fails, \<^verbatim>\<open>ListenAndServe\<close> returns its error and has made no other call: no watcher
  is started, nothing is served and \<^verbatim>\<open>Listen\<close> is not called again.
\<close>

theorem ListenAndServe_bind_error:
  assumes "listen (Addr srv) (MaxOpenConnections (srv_Config srv)) = Inl err"
  shows "ListenAndServe listen serve d srv ctx =
           (Some err, [ListenCall (Addr srv) (MaxOpenConnections (srv_Config srv))])
         \<and> take 1 (snd (ListenAndServe listen' serve' d srv ctx)) =
           [ListenCall (Addr srv) (MaxOpenConnections (srv_Config srv))]"
  using assms by (simp add: ListenAndServe_def Let_def split: sum.split)

theorem ListenAndServe_bind_error_witness:
  "ListenAndServe (\<lambda>addr n. Inl (Err ''listen tcp 127.0.0.1:26657: bind: address already in use''))
     (\<lambda>l h lg cfg. None) default_10s inspect_server (Context 0) =
   (Some (Err ''listen tcp 127.0.0.1:26657: bind: address already in use''),
    [ListenCall ''tcp://127.0.0.1:26657'' 900])"
proof -
  let ?listen =
    "\<lambda>(addr :: string) (n :: int64).
       (Inl (Err ''listen tcp 127.0.0.1:26657: bind: address already in use'')
          :: error + Listener)"
  have h: "?listen (Addr inspect_server) (MaxOpenConnections (srv_Config inspect_server)) =
             Inl (Err ''listen tcp 127.0.0.1:26657: bind: address already in use'')"
    by simp
  show ?thesis
    using ListenAndServe_bind_error
      [where listen = ?listen and srv = inspect_server and serve = "\<lambda>l h lg cfg. None"
         and d = default_10s and ctx = "Context 0" and listen' = ?listen
         and serve' = "\<lambda>l h lg cfg. None", OF h]
    by (simp add: inspect_server_def rpc_15s_def)
qed

text \<open>
  C8. For every server, \<^verbatim>\<open>ListenAndServeTLS\<close> makes the calls of \<^verbatim>\<open>ListenAndServe\<close>
  up to TLS termination: the same \<^verbatim>\<open>Listen\<close> call (address and connection cap), the
  same watcher on the same context and listener, and a serve call with the same
  listener, handler, logger and derived transport configuration, which is
  \<^verbatim>\<open>ServeTLS\<close> with the supplied certificate and key files in place of \<^verbatim>\<open>Serve\<close>. A
  failure of \<^verbatim>\<open>Listen\<close> is returned by both alike.
\<close>

theorem ListenAndServeTLS_same_contract:
  "map without_tls (snd (ListenAndServeTLS listen serveTLS d srv ctx certFile keyFile)) =
     snd (ListenAndServe listen serve d srv ctx)
   \<and> (case listen (Addr srv) (MaxOpenConnections (srv_Config srv)) of
        Inl err \<Rightarrow>
          ListenAndServeTLS listen serveTLS d srv ctx certFile keyFile =
            (Some err, [ListenCall (Addr srv) (MaxOpenConnections (srv_Config srv))])
          \<and> fst (ListenAndServe listen serve d srv ctx) = Some err
      | Inr listener \<Rightarrow>
          ListenAndServeTLS listen serveTLS d srv ctx certFile keyFile =
            (serveTLS listener (srv_Handler srv) certFile keyFile (srv_Logger srv)
               (serverRPCConfig d (srv_Config srv)),
             [ListenCall (Addr srv) (MaxOpenConnections (srv_Config srv)),
              GoWatcher ctx listener,
              ServeTLSCall listener (srv_Handler srv) certFile keyFile (srv_Logger srv)
                (serverRPCConfig d (srv_Config srv))])
          \<and> ListenAndServe listen serve d srv ctx =
            (serve listener (srv_Handler srv) (srv_Logger srv)
               (serverRPCConfig d (srv_Config srv)),
             [ListenCall (Addr srv) (MaxOpenConnections (srv_Config srv)),
              GoWatcher ctx listener,
              ServeCall listener (srv_Handler srv) (srv_Logger srv)
                (serverRPCConfig d (srv_Config srv))]))"
  by (simp add: ListenAndServe_def ListenAndServeTLS_def Let_def split: sum.split)

theorem ListenAndServeTLS_same_contract_witness:
  "map without_tls
     (snd (ListenAndServeTLS (\<lambda>addr n. Inr (Listener 7))
             (\<lambda>l h c k lg cfg. Some (Err ''http: Server closed''))
             default_10s inspect_server (Context 0) ''server.crt'' ''server.key'')) =
   snd (ListenAndServe (\<lambda>addr n. Inr (Listener 7))
          (\<lambda>l h lg cfg. Some (Err ''use of closed network connection''))
          default_10s inspect_server (Context 0))
   \<and> snd (ListenAndServeTLS (\<lambda>addr n. Inr (Listener 7))
            (\<lambda>l h c k lg cfg. Some (Err ''http: Server closed''))
            default_10s inspect_server (Context 0) ''server.crt'' ''server.key'') =
     [ListenCall ''tcp://127.0.0.1:26657'' 900,
      GoWatcher (Context 0) (Listener 7),
      ServeTLSCall (Listener 7) (srv_Handler inspect_server) ''server.crt'' ''server.key''
        (Logger []) (serverRPCConfig default_10s rpc_15s)]"
  using ListenAndServeTLS_same_contract
    [of "\<lambda>addr n. Inr (Listener 7)" "\<lambda>l h c k lg cfg. Some (Err ''http: Server closed'')"
        default_10s inspect_server "Context 0" "''server.crt''" "''server.key''"
        "\<lambda>l h lg cfg. Some (Err ''use of closed network connection'')"]
  by (simp add: inspect_server_def rpc_15s_def)

end
